theory Spec2Isabelle
  imports Complex_Main "HOL-Library.Char_ord" "HOL-Library.List_Lexorder"
    "HOL-Library.Product_Lexorder" "HOL-Library.Multiset"
begin

section \<open>Python strings\<close>

text \<open>
  The extractor works on Python \<^verbatim>\<open>str\<close> values. They are modelled as
  \<^typ>\<open>string\<close>, a list of 8-bit characters read as the code points 0 to 255; the
  built-in string methods the source calls are written out on that range. Text with
  code points above 255 is outside the model.
\<close>

definition ord :: "char \<Rightarrow> nat" where
  "ord c = of_char c"

text \<open>\<^verbatim>\<open>str.isspace\<close> on one character.\<close>

definition isspace :: "char \<Rightarrow> bool" where
  "isspace c = (let n = ord c in
     (9 \<le> n \<and> n \<le> 13) \<or> (28 \<le> n \<and> n \<le> 32) \<or> n = 133 \<or> n = 160)"

text \<open>\<^verbatim>\<open>str.isalnum\<close> on one character.\<close>

definition isalnum :: "char \<Rightarrow> bool" where
  "isalnum c = (let n = ord c in
     (48 \<le> n \<and> n \<le> 57) \<or> (65 \<le> n \<and> n \<le> 90) \<or> (97 \<le> n \<and> n \<le> 122)
     \<or> n = 170 \<or> n = 178 \<or> n = 179 \<or> n = 181 \<or> n = 185 \<or> n = 186
     \<or> n = 188 \<or> n = 189 \<or> n = 190
     \<or> (192 \<le> n \<and> n \<le> 214) \<or> (216 \<le> n \<and> n \<le> 246) \<or> (248 \<le> n \<and> n \<le> 255))"

text \<open>The class \<^verbatim>\<open>\w\<close> of the \<^verbatim>\<open>re\<close> module: alphanumeric or underscore.\<close>

definition is_word_char :: "char \<Rightarrow> bool" where
  "is_word_char c = (isalnum c \<or> c = CHR ''_'')"

definition lower_char :: "char \<Rightarrow> char" where
  "lower_char c = (let n = ord c in
     if (65 \<le> n \<and> n \<le> 90) \<or> (192 \<le> n \<and> n \<le> 214) \<or> (216 \<le> n \<and> n \<le> 222)
     then char_of (n + 32) else c)"

text \<open>\<^verbatim>\<open>str.lower\<close>.\<close>

definition lower :: "string \<Rightarrow> string" where
  "lower s = map lower_char s"

text \<open>\<^verbatim>\<open>str.lstrip()\<close> and \<^verbatim>\<open>str.strip()\<close> with no argument.\<close>

definition lstrip :: "string \<Rightarrow> string" where
  "lstrip s = dropWhile isspace s"

definition strip :: "string \<Rightarrow> string" where
  "strip s = rev (dropWhile isspace (rev (dropWhile isspace s)))"

text \<open>\<^verbatim>\<open>str.startswith\<close>.\<close>

definition startswith :: "string \<Rightarrow> string \<Rightarrow> bool" where
  "startswith s p = (take (length p) s = p)"

text \<open>The substring test \<^verbatim>\<open>sub in s\<close>.\<close>

fun py_in :: "string \<Rightarrow> string \<Rightarrow> bool" where
  "py_in sub [] = (sub = [])"
| "py_in sub (c # cs) = (startswith (c # cs) sub \<or> py_in sub cs)"

text \<open>
  \<^verbatim>\<open>str.count(sub)\<close>: the number of non-overlapping occurrences, found from
  the left. With an empty \<^verbatim>\<open>sub\<close> Python answers \<^verbatim>\<open>len(s) + 1\<close>.
\<close>

function py_count :: "string \<Rightarrow> string \<Rightarrow> nat" where
  "py_count s sub =
     (if sub = [] then length s + 1
      else if s = [] then 0
      else if startswith s sub then 1 + py_count (drop (length sub) s) sub
      else py_count (tl s) sub)"
  by pat_completeness auto
termination
  by (relation "measure (\<lambda>(s, sub). length s)") auto

declare py_count.simps [simp del]

text \<open>The line boundaries of \<^verbatim>\<open>str.splitlines\<close> below code point 256.\<close>

definition is_linebreak :: "char \<Rightarrow> bool" where
  "is_linebreak c = (let n = ord c in (10 \<le> n \<and> n \<le> 13) \<or> (28 \<le> n \<and> n \<le> 30) \<or> n = 133)"

text \<open>
  \<^verbatim>\<open>str.splitlines()\<close>: the lines without their terminators; a carriage return
  followed by a line feed is one boundary, and a final terminator opens no empty line.
\<close>

fun splitlines_from :: "string \<Rightarrow> string \<Rightarrow> string list" where
  "splitlines_from [] cur = (if cur = [] then [] else [cur])"
| "splitlines_from [c] cur = (if is_linebreak c then [cur] else [cur @ [c]])"
| "splitlines_from (c # d # cs) cur =
     (if c = CHR 0x0D \<and> d = CHR 0x0A then cur # splitlines_from cs []
      else if is_linebreak c then cur # splitlines_from (d # cs) []
      else splitlines_from (d # cs) (cur @ [c]))"

definition splitlines :: "string \<Rightarrow> string list" where
  "splitlines s = splitlines_from s []"

text \<open>\<^verbatim>\<open>"\n".join(xs)\<close>.\<close>

fun join_nl :: "string list \<Rightarrow> string" where
  "join_nl [] = []"
| "join_nl [x] = x"
| "join_nl (x # y # ys) = x @ CHR 0x0A # join_nl (y # ys)"

text \<open>
  \<^verbatim>\<open>len(re.findall(r'\bKW\b', code))\<close> for a keyword made of word characters:
  the positions where the keyword stands with no word character before it and none after
  it. Two such matches cannot overlap, so the scan of \<^verbatim>\<open>findall\<close>, which resumes
  after each match, finds every one of them. The flag says whether the character before
  the current position is a word character.
\<close>

fun count_word_from :: "string \<Rightarrow> bool \<Rightarrow> string \<Rightarrow> nat" where
  "count_word_from kw prev [] = 0"
| "count_word_from kw prev (c # cs) =
     (if \<not> prev \<and> startswith (c # cs) kw
         \<and> (case drop (length kw) (c # cs) of [] \<Rightarrow> True | d # _ \<Rightarrow> \<not> is_word_char d)
      then 1 else 0) + count_word_from kw (is_word_char c) cs"

definition count_word :: "string \<Rightarrow> string \<Rightarrow> nat" where
  "count_word kw code = count_word_from kw False code"

section \<open>Complexity and documentation analyzer\<close>

definition python_keywords :: "string list" where
  "python_keywords = [''if'', ''elif'', ''else'', ''for'', ''while'', ''except'']"

definition other_keywords :: "string list" where
  "other_keywords = [''case'', ''catch'']"

definition operators :: "string list" where
  "operators = [''&&'', ''||'', ''?'']"

text \<open>
  \<^verbatim>\<open>compute_complexity\<close>. The pattern \<^verbatim>\<open>\b(and|or)\b\<close> matches a whole word
  \<^verbatim>\<open>and\<close> or a whole word \<^verbatim>\<open>or\<close>; the two never start at the same place, so
  its count is the sum of the two counts.
\<close>

definition compute_complexity :: "string \<Rightarrow> string \<Rightarrow> int" where
  "compute_complexity code lang =
     (if lang \<in> set [''py'', ''python'']
      then 1 + int (sum_list (map (\<lambda>keyword. count_word keyword code) python_keywords))
             + int (count_word ''and'' code + count_word ''or'' code)
      else 1 + int (sum_list (map (\<lambda>keyword. count_word keyword code)
                                  (python_keywords @ other_keywords)))
             + int (sum_list (map (\<lambda>operator. py_count code operator) operators)))"

text \<open>Whether a stripped, non-blank line counts as documentation in the dialect.\<close>

definition is_doc_line :: "string \<Rightarrow> string \<Rightarrow> bool" where
  "is_doc_line lang stripped =
     (if lang \<in> set [''py'', ''python'']
      then startswith stripped ''#'' \<or> startswith stripped [CHR 0x22, CHR 0x22, CHR 0x22]
           \<or> startswith stripped [CHR 0x27, CHR 0x27, CHR 0x27]
      else if lang \<in> set [''js'', ''javascript'', ''typescript'', ''go'', ''rust'', ''java'',
                            ''c'', ''cpp'']
      then startswith stripped ''//'' \<or> startswith stripped ''/*'' \<or> startswith stripped ''*''
      else if lang \<in> set [''ruby'']
      then startswith stripped ''#''
      else if lang \<in> set [''php'']
      then startswith stripped ''//'' \<or> startswith stripped ''#'' \<or> startswith stripped ''/*''
      else False)"

text \<open>
  \<^verbatim>\<open>compute_documentation_ratio\<close>. The quotient of the two counters is kept as an
  exact rational where Python rounds it to a double. The scorer compares it with 0.15
  and 0.05 only; rounding is monotone and both quotients 3/20 and 1/20 round to the
  doubles of these literals, so the comparisons agree with those of Python for every
  text of fewer than \<open>2\<^sup>5\<^sup>0\<close> lines.
\<close>

definition compute_documentation_ratio :: "string \<Rightarrow> string \<Rightarrow> rat" where
  "compute_documentation_ratio code lang =
     (let lines = splitlines code;
          nonblank = filter (\<lambda>stripped. stripped \<noteq> []) (map strip lines);
          code_lines = int (length nonblank);
          doc_lines = int (length (filter (is_doc_line lang) nonblank))
      in if code_lines > 0 then of_int doc_lines / of_int code_lines else 0)"

section \<open>Quality scorer\<close>

text \<open>
  The metrics dictionary. A key that the scorer sets on one path only is an optional
  field: \<^verbatim>\<open>has_types\<close>, \<^verbatim>\<open>has_async\<close>, \<^verbatim>\<open>has_exports\<close> and
  \<^verbatim>\<open>too_many_ifs\<close>.
\<close>

record metrics =
  m_line_count :: int
  m_length_score :: int
  m_doc_ratio :: rat
  m_has_types :: "bool option"
  m_has_async :: "bool option"
  m_has_error_handling :: bool
  m_has_exports :: "bool option"
  m_has_todos :: bool
  m_has_debug :: bool
  m_is_test :: bool
  m_complexity :: int
  m_max_indent :: int
  m_too_many_ifs :: "bool option"
  m_final_score :: int

text \<open>The nesting-depth loop: the widest leading whitespace over the non-blank lines.\<close>

definition max_indent_of :: "string list \<Rightarrow> int" where
  "max_indent_of lines =
     fold (\<lambda>line max_indent.
             if strip line \<noteq> []
             then max max_indent (int (length line) - int (length (lstrip line)))
             else max_indent) lines 0"

definition debug_patterns :: "string list" where
  "debug_patterns = [''console.log'', ''print('', ''println'', ''fmt.println'', ''debugger'']"

definition assess_quality_enhanced :: "string \<Rightarrow> string \<Rightarrow> string \<Rightarrow> int \<times> metrics" where
  "assess_quality_enhanced code lang fragment_type =
     (let lines = splitlines code;
          text = lower code;
          score = (5::int);
          line_count = int (length (filter (\<lambda>l. strip l \<noteq> []) lines));
          length_score =
            (if 10 \<le> line_count \<and> line_count \<le> 50 then 2
             else if (5 \<le> line_count \<and> line_count < 10) \<or> (50 < line_count \<and> line_count \<le> 100)
             then 1
             else if line_count > 200 then - 2
             else 0);
          score = score + length_score;
          doc_ratio = compute_documentation_ratio code lang;
          score = score + (if doc_ratio > 15 / 100 then 2 else if doc_ratio > 5 / 100 then 1 else 0);
          py_types = (if lang \<in> set [''py'', ''python'']
                      then Some (py_in ''->'' code \<or> py_in '': '' code) else None);
          score = score + (if py_types = Some True then 1 else 0);
          ts_types = (if lang \<in> set [''typescript'', ''ts'']
                      then Some (py_in '': '' code \<or> py_in ''interface'' text \<or> py_in ''type '' text)
                      else None);
          score = score + (if ts_types = Some True then 1 else 0);
          has_types = (case ts_types of Some b \<Rightarrow> Some b | None \<Rightarrow> py_types);
          is_async = (py_in ''async'' text \<or> py_in ''await'' text);
          score = score + (if is_async then 1 else 0);
          has_error_handling =
            list_ex (\<lambda>kw. py_in kw text) [''try'', ''catch'', ''except'', ''error'', ''throw''];
          score = score + (if has_error_handling then 1 else 0);
          is_export = py_in ''export'' text;
          score = score + (if is_export then 1 else 0);
          has_todos = (py_in ''todo'' text \<or> py_in ''fixme'' text \<or> py_in ''hack'' text);
          score = score - (if has_todos then 1 else 0);
          has_debug = list_ex (\<lambda>pat. py_in pat text) debug_patterns;
          score = score - (if has_debug then 1 else 0);
          is_test = (py_in ''test'' text \<or> py_in ''spec'' text \<or> py_in ''describe'' text);
          score = score + (if is_test \<and> py_in ''test'' (lower fragment_type) then 1 else 0);
          complexity = compute_complexity code lang;
          score = score + (if complexity > 15 then - 2
                           else if complexity > 10 then - 1
                           else if 3 \<le> complexity \<and> complexity \<le> 8 then 1
                           else 0);
          max_indent = max_indent_of lines;
          score = score + (if max_indent > 24 then - 2 else if max_indent > 16 then - 1 else 0);
          many_ifs = (int (py_count code ''if'') > 10);
          score = score - (if many_ifs then 1 else 0);
          final_score = max 1 (min 10 score)
      in (final_score,
          \<lparr> m_line_count = line_count,
            m_length_score = length_score,
            m_doc_ratio = doc_ratio,
            m_has_types = has_types,
            m_has_async = (if is_async then Some True else None),
            m_has_error_handling = has_error_handling,
            m_has_exports = (if is_export then Some True else None),
            m_has_todos = has_todos,
            m_has_debug = has_debug,
            m_is_test = is_test,
            m_complexity = complexity,
            m_max_indent = max_indent,
            m_too_many_ifs = (if many_ifs then Some True else None),
            m_final_score = final_score \<rparr>))"

section \<open>Brace matching\<close>

text \<open>The brace counter of \<^verbatim>\<open>extract_js_block\<close> over the characters of one line.\<close>

definition brace_delta :: "string \<Rightarrow> int" where
  "brace_delta line =
     fold (\<lambda>ch brace. if ch = CHR ''{'' then brace + 1
                      else if ch = CHR ''}'' then brace - 1 else brace) line 0"

text \<open>
  The second loop of \<^verbatim>\<open>extract_js_block\<close>: \<open>rest\<close> holds the lines of the range
  still to visit and \<open>i\<close> the index of its first one.
\<close>

fun js_block_scan ::
  "string list \<Rightarrow> nat \<Rightarrow> int \<Rightarrow> string list \<Rightarrow> nat \<Rightarrow> string list \<times> nat" where
  "js_block_scan [] i brace block end_line = (block, end_line)"
| "js_block_scan (l # rest) i brace block end_line =
     (let brace = brace + brace_delta l
      in if brace \<le> 0 then (block @ [l], i)
         else js_block_scan rest (i + 1) brace (block @ [l]) i)"

definition extract_js_block :: "string list \<Rightarrow> nat \<Rightarrow> string \<times> nat" where
  "extract_js_block lns start_line =
     (if start_line \<ge> length lns then ([], start_line)
      else
        (let line = lns ! start_line
         in if CHR ''{'' \<notin> set line then (line, start_line)
            else
              (let upper = min (length lns) (start_line + 500);
                   rest = take (upper - (start_line + 1)) (drop (start_line + 1) lns);
                   (block, end_line) =
                      js_block_scan rest (start_line + 1) (brace_delta line) [line] start_line
               in (join_nl block, end_line))))"

section \<open>Data model\<close>

text \<open>
  \<^verbatim>\<open>Config\<close>: the fields that \<^verbatim>\<open>validate\<close> and the extractor read. The scanning
  lists, the building and the interface switches are read by neither and are left out.
\<close>

record config =
  inactive_days :: int
  max_file_mb :: rat
  min_quality :: int
  min_lines :: int
  max_lines :: int
  skip_tests :: bool
  deduplicate :: bool
  parallel_scan :: bool
  max_workers :: int
  cache_ttl_hours :: int

text \<open>\<^verbatim>\<open>Config.validate\<close>: the list of issues, in the order of the checks.\<close>

definition validate :: "config \<Rightarrow> string list" where
  "validate self =
     (if inactive_days self < 0 then [''inactive_days must be >= 0''] else [])
     @ (if max_file_mb self \<le> 0 then [''max_file_mb must be > 0''] else [])
     @ (if \<not> (1 \<le> min_quality self \<and> min_quality self \<le> 10)
        then [''min_quality must be between 1-10''] else [])
     @ (if min_lines self < 1 then [''min_lines must be >= 1''] else [])
     @ (if max_lines self < min_lines self then [''max_lines must be >= min_lines''] else [])
     @ (if max_workers self < 1 then [''max_workers must be >= 1''] else [])
     @ (if cache_ttl_hours self < 1 then [''cache_ttl_hours must be >= 1''] else [])"

text \<open>\<^verbatim>\<open>Project\<close>: the name and the candidate source files, which is all the extractor reads.\<close>

record project =
  project_name :: string
  code_files :: "string list"

text \<open>\<^verbatim>\<open>Fragment\<close>, with the defaults of the dataclass written by \<open>new_fragment\<close>.\<close>

record fragment =
  uid :: string
  name :: string
  type :: string
  "file" :: string
  project :: string
  code :: string
  lines :: int
  quality :: int
  start_line :: int
  end_line :: int
  dependencies :: "string list"
  "imports" :: "string list"
  exports :: "string list"
  complexity :: int
  documentation_ratio :: rat
  has_types :: bool
  has_tests :: bool
  has_error_handling :: bool
  tags :: "string list"
  embedding_hash :: "string option"
  similar_fragments :: "string list"

record extraction_result =
  fragments :: "fragment list"
  extraction_time :: rat

section \<open>The libraries and the file system\<close>

text \<open>
  The syntax tree that \<^verbatim>\<open>ast.parse\<close> returns: every node has its kind, the line
  attributes when it carries them, and its child nodes. Only the kinds the extractor
  tells apart are named.
\<close>

datatype node_kind =
    FunctionDef string
  | AsyncFunctionDef string
  | ClassDef string
  | Import "string list"
  | ImportFrom "string option"
  | OtherNode

datatype ast_node =
  Node (kind: node_kind) (lineno: "int option") (end_lineno: "int option")
       (children: "ast_node list")

datatype py_error = SyntaxError | ValueError | OtherError

text \<open>The four patterns of \<^verbatim>\<open>extract_js_fragments\<close>, in the order of its table.\<close>

datatype js_pattern = FunctionPattern | ClassPattern | ArrowFuncPattern | ComponentPattern

text \<open>
  What the code takes from outside: the MD5 digest in hexadecimal, the Python parser,
  the regular-expression engine on the four block patterns (for each match the text of
  group 1 and \<^verbatim>\<open>match.start()\<close>) and on the import pattern (what
  \<^verbatim>\<open>re.findall\<close> returns), the text of a file as \<^verbatim>\<open>safe_read_text\<close> reads it
  (\<open>None\<close> when it cannot), the order in which the futures of the worker pool complete,
  and the two readings of the clock.
\<close>

record env =
  md5_hexdigest :: "string \<Rightarrow> string"
  ast_parse :: "string \<Rightarrow> py_error + ast_node"
  re_finditer :: "js_pattern \<Rightarrow> string \<Rightarrow> (string \<times> nat) list"
  re_findall_imports :: "string \<Rightarrow> string list"
  safe_read_text :: "string \<Rightarrow> string option"
  as_completed :: "fragment list list \<Rightarrow> fragment list list"
  time_start :: rat
  time_end :: rat

text \<open>
  \<^verbatim>\<open>ast.walk\<close>: breadth first, the node itself first; the queue takes the children
  of each node it gives out.
\<close>

function ast_walk_queue :: "ast_node list \<Rightarrow> ast_node list" where
  "ast_walk_queue [] = []"
| "ast_walk_queue (n # todo) = n # ast_walk_queue (todo @ children n)"
  by pat_completeness auto
termination
proof (relation "measure (\<lambda>todo. sum_list (map size todo))")
  show "wf (measure (\<lambda>todo. sum_list (map size todo)))" by simp
next
  fix n :: ast_node and todo :: "ast_node list"
  have "sum_list (map size (children n)) < size n"
    by (cases n) (simp add: size_list_conv_sum_list)
  then show "(todo @ children n, n # todo) \<in> measure (\<lambda>todo. sum_list (map size todo))"
    by simp
qed

definition ast_walk :: "ast_node \<Rightarrow> ast_node list" where
  "ast_walk node = ast_walk_queue [node]"

text \<open>\<^verbatim>\<open>str\<close> of an integer, in decimal.\<close>

function str_nat :: "nat \<Rightarrow> string" where
  "str_nat n = (if n < 10 then [char_of (48 + n)]
                else str_nat (n div 10) @ [char_of (48 + n mod 10)])"
  by pat_completeness auto
termination
  by (relation "measure id") auto

declare str_nat.simps [simp del]

definition str_int :: "int \<Rightarrow> string" where
  "str_int i = (if i < 0 then CHR ''-'' # str_nat (nat (- i)) else str_nat (nat i))"

text \<open>
  A slice \<^verbatim>\<open>xs[i:j]\<close>: a negative index counts from the end, and both ends are
  clipped to the list.
\<close>

definition slice_index :: "nat \<Rightarrow> int \<Rightarrow> nat" where
  "slice_index n k = (if k < 0 then nat (max 0 (k + int n)) else min (nat k) n)"

definition py_slice :: "'a list \<Rightarrow> int \<Rightarrow> int \<Rightarrow> 'a list" where
  "py_slice xs i j =
     (let lo = slice_index (length xs) i; hi = slice_index (length xs) j
      in take (hi - lo) (drop lo xs))"

text \<open>
  Paths are strings in the form \<^verbatim>\<open>pathlib\<close> prints them, with \<^verbatim>\<open>/\<close> between
  the components. \<^verbatim>\<open>Path.name\<close> is the last component; \<^verbatim>\<open>Path.suffix\<close> is
  the name from its last dot on, unless that dot is the first or the last character.
\<close>

definition path_name :: "string \<Rightarrow> string" where
  "path_name p = rev (takeWhile (\<lambda>c. c \<noteq> CHR ''/'') (rev p))"

definition path_suffix :: "string \<Rightarrow> string" where
  "path_suffix p =
     (let nm = path_name p; ext = rev (takeWhile (\<lambda>c. c \<noteq> CHR ''.'') (rev nm))
      in if CHR ''.'' \<in> set nm \<and> ext \<noteq> [] \<and> length ext + 1 < length nm
         then CHR ''.'' # ext else [])"

section \<open>Fragment identity\<close>

text \<open>\<^verbatim>\<open>stable_uid\<close>: the first 16 hexadecimal digits of the digest of the key.\<close>

definition stable_uid :: "env \<Rightarrow> string \<Rightarrow> string \<Rightarrow> string \<Rightarrow> string" where
  "stable_uid e proj filename line =
     (let key = proj @ '':'' @ filename @ '':'' @ line
      in take 16 (md5_hexdigest e key))"

text \<open>\<^verbatim>\<open>Fragment.code_hash\<close>.\<close>

definition code_hash :: "env \<Rightarrow> fragment \<Rightarrow> string" where
  "code_hash e self = md5_hexdigest e (code self)"

text \<open>\<^verbatim>\<open>str.split()\<close> with no argument: the maximal runs without white space.\<close>

fun split_from :: "string \<Rightarrow> string \<Rightarrow> string list" where
  "split_from [] cur = (if cur = [] then [] else [cur])"
| "split_from (c # cs) cur =
     (if isspace c then (if cur = [] then split_from cs [] else cur # split_from cs [])
      else split_from cs (cur @ [c]))"

definition split :: "string \<Rightarrow> string list" where
  "split s = split_from s []"

text \<open>\<^verbatim>\<open>' '.join(xs)\<close>.\<close>

fun join_space :: "string list \<Rightarrow> string" where
  "join_space [] = []"
| "join_space [x] = x"
| "join_space (x # y # ys) = x @ CHR '' '' # join_space (y # ys)"

text \<open>The text that \<^verbatim>\<open>compute_embedding_hash\<close> digests.\<close>

definition semantic_text :: "string \<Rightarrow> string" where
  "semantic_text c =
     (let normalized = lower c;
          normalized = map (\<lambda>ch. if isalnum ch then ch else CHR '' '') normalized;
          words = split normalized;
          word_set = sort (remdups words)
      in join_space (take 50 word_set))"

text \<open>
  \<^verbatim>\<open>Fragment.compute_embedding_hash\<close> returns the digest and stores it in the
  fragment; the model returns the digest and the fragment as it is afterwards.
\<close>

definition compute_embedding_hash :: "env \<Rightarrow> fragment \<Rightarrow> string \<times> fragment" where
  "compute_embedding_hash e self =
     (let h = md5_hexdigest e (semantic_text (code self))
      in (h, self\<lparr>embedding_hash := Some h\<rparr>))"

section \<open>Block extraction and fragment assembly\<close>

text \<open>The constructor \<^verbatim>\<open>Fragment(...)\<close> with the defaults of the dataclass.\<close>

definition new_fragment ::
  "string \<Rightarrow> string \<Rightarrow> string \<Rightarrow> string \<Rightarrow> string \<Rightarrow> string \<Rightarrow> int \<Rightarrow> int \<Rightarrow> int
   \<Rightarrow> fragment" where
  "new_fragment u n t f p c l q s =
     \<lparr> uid = u, name = n, type = t, file = f, project = p, code = c, lines = l, quality = q,
       start_line = s, end_line = 0, dependencies = [], imports = [], exports = [],
       complexity = 0, documentation_ratio = 0, has_types = False, has_tests = False,
       has_error_handling = False, tags = [], embedding_hash = None,
       similar_fragments = [] \<rparr>"

text \<open>\<^verbatim>\<open>metrics.get('has_types', False)\<close>.\<close>

definition get_or_False :: "bool option \<Rightarrow> bool" where
  "get_or_False v = (case v of Some b \<Rightarrow> b | None \<Rightarrow> False)"

text \<open>The module names that the import statements under a node refer to.\<close>

definition node_imports :: "ast_node \<Rightarrow> string list" where
  "node_imports node =
     concat (map (\<lambda>imp_node.
        case kind imp_node of
          Import names \<Rightarrow> names
        | ImportFrom modname \<Rightarrow> (case modname of Some m \<Rightarrow> (if m \<noteq> [] then [m] else []) | None \<Rightarrow> [])
        | _ \<Rightarrow> []) (ast_walk node))"

text \<open>
  One turn of the loop of \<^verbatim>\<open>extract_python_fragments\<close> over the nodes of the tree:
  \<open>None\<close> where the source goes on to the next node without appending.
\<close>

definition python_fragment ::
  "env \<Rightarrow> string list \<Rightarrow> string \<Rightarrow> string \<Rightarrow> config \<Rightarrow> ast_node \<Rightarrow> fragment option" where
  "python_fragment e lns file_path proj cfg node =
     (case (case kind node of
              FunctionDef n \<Rightarrow> Some (n, ''PythonFunc'')
            | AsyncFunctionDef n \<Rightarrow> Some (n, ''PythonAsyncFunc'')
            | ClassDef n \<Rightarrow> Some (n, ''PythonClass'')
            | _ \<Rightarrow> None) of
        None \<Rightarrow> None
      | Some (node_name, frag_type) \<Rightarrow>
          (let start = (case lineno node of Some l \<Rightarrow> l | None \<Rightarrow> 1) - 1;
               end = (case end_lineno node of Some l \<Rightarrow> l | None \<Rightarrow> start + 1)
           in if 0 \<le> start \<and> start < int (length lns) \<and> end \<le> int (length lns)
              then
                (let block_lines = py_slice lns start end;
                     block = join_nl block_lines
                 in if int (length block_lines) < min_lines cfg
                       \<or> int (length block_lines) > max_lines cfg
                    then None
                    else
                      (let imps = node_imports node;
                           (q, m) = assess_quality_enhanced block ''python'' frag_type
                       in if q < min_quality cfg then None
                          else Some ((new_fragment
                                 (stable_uid e proj (path_name file_path) (str_int start))
                                 node_name frag_type file_path proj block
                                 (int (length block_lines)) q (start + 1))
                               \<lparr> end_line := end,
                                 imports := imps,
                                 complexity := m_complexity m,
                                 documentation_ratio := m_doc_ratio m,
                                 has_types := get_or_False (m_has_types m),
                                 has_error_handling := m_has_error_handling m,
                                 has_tests := m_is_test m \<rparr>)))
              else None))"

text \<open>
  \<^verbatim>\<open>extract_python_fragments\<close>. Only \<^verbatim>\<open>ast.parse\<close> can raise inside the
  \<^verbatim>\<open>try\<close>, before anything is appended; both handlers log and fall through to the
  return of the still empty list.
\<close>

definition extract_python_fragments ::
  "env \<Rightarrow> string \<Rightarrow> string \<Rightarrow> string \<Rightarrow> config \<Rightarrow> fragment list" where
  "extract_python_fragments e c file_path proj cfg =
     (case ast_parse e c of
        Inl err \<Rightarrow> []
      | Inr tree \<Rightarrow>
          List.map_filter (python_fragment e (splitlines c) file_path proj cfg) (ast_walk tree))"

definition patterns :: "(js_pattern \<times> string) list" where
  "patterns = [(FunctionPattern, ''Function''), (ClassPattern, ''Class''),
               (ArrowFuncPattern, ''ArrowFunc''), (ComponentPattern, ''Component'')]"

text \<open>
  One turn of the inner loop of \<^verbatim>\<open>extract_js_fragments\<close>, for the match with
  group 1 \<open>nm\<close> that starts at offset \<open>pos\<close>.
\<close>

definition js_fragment ::
  "env \<Rightarrow> string \<Rightarrow> string \<Rightarrow> string \<Rightarrow> config \<Rightarrow> string \<Rightarrow> string \<times> nat \<Rightarrow> fragment option"
  where
  "js_fragment e c file_path proj cfg frag_type match =
     (let nm = fst match;
          start_line = py_count (take (snd match) c) [CHR 0x0A];
          (block, end_line) = extract_js_block (splitlines c) start_line;
          block_lines = splitlines block
      in if int (length block_lines) < min_lines cfg \<or> int (length block_lines) > max_lines cfg
         then None
         else
           (let (q, m) = assess_quality_enhanced block ''javascript'' frag_type
            in if q < min_quality cfg then None
               else Some ((new_fragment
                      (stable_uid e proj (path_name file_path) (str_int (int start_line)))
                      nm (''JS/'' @ frag_type) file_path proj block
                      (int (length block_lines)) q (int start_line + 1))
                    \<lparr> end_line := int end_line + 1,
                      imports := re_findall_imports e block,
                      exports := (if py_in ''export'' block then [nm] else []),
                      complexity := m_complexity m,
                      documentation_ratio := m_doc_ratio m,
                      has_types := get_or_False (m_has_types m),
                      has_error_handling := m_has_error_handling m \<rparr>)))"

definition extract_js_fragments ::
  "env \<Rightarrow> string \<Rightarrow> string \<Rightarrow> string \<Rightarrow> config \<Rightarrow> fragment list" where
  "extract_js_fragments e c file_path proj cfg =
     concat (map (\<lambda>(pattern, frag_type).
        List.map_filter (js_fragment e c file_path proj cfg frag_type) (re_finditer e pattern c))
        patterns)"

text \<open>
  \<^verbatim>\<open>extract_from_file\<close>. A file that cannot be read and an empty file give no
  fragments. Nothing below raises, so the handler of the source is never entered.
\<close>

definition extract_from_file :: "env \<Rightarrow> string \<Rightarrow> project \<Rightarrow> config \<Rightarrow> fragment list" where
  "extract_from_file e file_path proj cfg =
     (case safe_read_text e file_path of
        None \<Rightarrow> []
      | Some c \<Rightarrow>
          if c = [] then []
          else if path_suffix file_path = ''.py''
          then extract_python_fragments e c file_path (project_name proj) cfg
          else if path_suffix file_path \<in> set [''.js'', ''.jsx'', ''.ts'', ''.tsx'']
          then extract_js_fragments e c file_path (project_name proj) cfg
          else [])"

section \<open>Deduplication\<close>

text \<open>
  One turn of the loop of \<^verbatim>\<open>deduplicate_fragments\<close> on the state
  \<open>(seen_exact, seen_semantic, unique)\<close>.
\<close>

definition dedup_step ::
  "env \<Rightarrow> fragment \<Rightarrow> string set \<times> string set \<times> fragment list
   \<Rightarrow> string set \<times> string set \<times> fragment list" where
  "dedup_step e frag st =
     (case st of (seen_exact, seen_semantic, unique) \<Rightarrow>
        if code_hash e frag \<in> seen_exact then st
        else
          (let (semantic_hash, frag) = compute_embedding_hash e frag
           in if semantic_hash \<in> seen_semantic then st
              else (insert (code_hash e frag) seen_exact,
                    insert semantic_hash seen_semantic,
                    unique @ [frag])))"

definition deduplicate_fragments :: "env \<Rightarrow> fragment list \<Rightarrow> fragment list" where
  "deduplicate_fragments e frags = snd (snd (fold (dedup_step e) frags ({}, {}, [])))"

section \<open>Orchestration\<close>

text \<open>The units of work: every file of every project, in order.\<close>

definition file_units :: "project list \<Rightarrow> (string \<times> project) list" where
  "file_units projects = concat (map (\<lambda>p. map (\<lambda>file_path. (file_path, p)) (code_files p)) projects)"

text \<open>
  \<^verbatim>\<open>extract_fragments_parallel\<close>. The worker pool refuses a size below one with a
  \<^verbatim>\<open>ValueError\<close>, which nothing catches; the sequential branch builds no pool.
\<close>

definition extract_fragments_parallel :: "env \<Rightarrow> project list \<Rightarrow> config \<Rightarrow> py_error + fragment list"
  where
  "extract_fragments_parallel e projects cfg =
     (let total_files = sum_list (map (\<lambda>p. length (code_files p)) projects);
          results = map (\<lambda>(file_path, p). extract_from_file e file_path p cfg) (file_units projects)
      in if parallel_scan cfg \<and> total_files > 10 \<and> max_workers cfg \<le> 0 then Inl ValueError
         else
           (let all_fragments =
                  (if parallel_scan cfg \<and> total_files > 10
                   then concat (as_completed e results)
                   else concat results);
                all_fragments = (if deduplicate cfg then deduplicate_fragments e all_fragments
                                 else all_fragments);
                all_fragments = (if skip_tests cfg then filter (\<lambda>f. \<not> has_tests f) all_fragments
                                 else all_fragments)
            in Inr all_fragments))"

text \<open>
  The list \<open>all_fragments\<close> of \<^verbatim>\<open>extract_fragments_parallel\<close> when its
  extraction loop ends, before the deduplication and the test filter: the fragments the
  source logs as raw.
\<close>

definition raw_fragments :: "env \<Rightarrow> project list \<Rightarrow> config \<Rightarrow> fragment list" where
  "raw_fragments e projects cfg =
     (let total_files = sum_list (map (\<lambda>p. length (code_files p)) projects);
          results = map (\<lambda>(file_path, p). extract_from_file e file_path p cfg) (file_units projects)
      in if parallel_scan cfg \<and> total_files > 10
         then concat (as_completed e results)
         else concat results)"

text \<open>
  \<^verbatim>\<open>fragments.sort(key=lambda f: (f.quality, f.lines), reverse=True)\<close>: the sort of
  Python is stable, and with \<^verbatim>\<open>reverse=True\<close> it keeps fragments of equal key in
  their order.
\<close>

definition sort_fragments :: "fragment list \<Rightarrow> fragment list" where
  "sort_fragments frags = rev (sort_key (\<lambda>f. (quality f, lines f)) (rev frags))"

definition extract_fragments :: "env \<Rightarrow> project list \<Rightarrow> config \<Rightarrow> py_error + extraction_result"
  where
  "extract_fragments e projects cfg =
     (case extract_fragments_parallel e projects cfg of
        Inl err \<Rightarrow> Inl err
      | Inr frags \<Rightarrow>
          Inr \<lparr> fragments = sort_fragments frags,
                extraction_time = time_end e - time_start e \<rparr>)"

section \<open>Vocabulary of the proofs\<close>

text \<open>The digest that \<open>compute_embedding_hash\<close> returns, and the fragment it leaves.\<close>

definition sem_hash :: "env \<Rightarrow> fragment \<Rightarrow> string" where
  "sem_hash e f = fst (compute_embedding_hash e f)"

definition cache_hash :: "env \<Rightarrow> fragment \<Rightarrow> fragment" where
  "cache_hash e f = snd (compute_embedding_hash e f)"

text \<open>
  The invariant of the deduplication loop: the two sets hold the digests of the fragments
  kept so far, no two kept fragments share a digest, and every kept fragment carries its
  semantic digest.
\<close>

definition dedup_inv :: "env \<Rightarrow> string set \<times> string set \<times> fragment list \<Rightarrow> bool" where
  "dedup_inv e st = (case st of (seen_exact, seen_semantic, unique) \<Rightarrow>
      seen_exact = code_hash e ` set unique \<and> seen_semantic = sem_hash e ` set unique
      \<and> distinct (map (code_hash e) unique) \<and> distinct (map (sem_hash e) unique)
      \<and> (\<forall>f\<in>set unique. cache_hash e f = f))"

text \<open>
  The futures complete in some order: \<open>as_completed\<close> gives each of them once.
\<close>

definition as_completed_permutes :: "env \<Rightarrow> bool" where
  "as_completed_permutes e = (\<forall>results. mset (as_completed e results) = mset results)"

text \<open>The number of non-blank lines of a text, as the scorer counts them.\<close>

definition nonblank_count :: "string \<Rightarrow> int" where
  "nonblank_count c = int (length (filter (\<lambda>l. strip l \<noteq> []) (splitlines c)))"

section \<open>A sample project\<close>

text \<open>The defaults of the \<^verbatim>\<open>Config\<close> dataclass.\<close>

definition default_config :: config where
  "default_config =
     \<lparr> inactive_days = 60, max_file_mb = 1, min_quality = 5, min_lines = 5, max_lines = 500,
       skip_tests = False, deduplicate = True, parallel_scan = True, max_workers = 4,
       cache_ttl_hours = 24 \<rparr>"

text \<open>A function of three statements spread over five lines.\<close>

definition spacing_js :: string where
  "spacing_js = join_nl [''function f() {'', [], ''  a();'', [], ''}'']"

text \<open>A function whose name marks it as a test.\<close>

definition login_js :: string where
  "login_js = join_nl
     [''function testLogin() {'',
      ''  const user = makeUser();'',
      ''  const session = login(user);'',
      ''  check(session.ok);'',
      ''  return session;'',
      ''}'']"

text \<open>Two files of one project with the same name in different directories.\<close>

definition start_js :: string where
  "start_js = join_nl
     [''function start(app) {'',
      ''  const port = app.port;'',
      ''  app.listen(port);'',
      ''  app.ready = true;'',
      ''  return port;'',
      ''}'']"

definition stop_js :: string where
  "stop_js = join_nl
     [''function stop(app) {'',
      ''  const server = app.server;'',
      ''  server.close();'',
      ''  app.ready = false;'',
      ''  return server;'',
      ''}'']"

text \<open>A Python function with two blank lines in its body, and its syntax tree.\<close>

definition area_py :: string where
  "area_py = join_nl [''def area(w, h):'', [], ''    x = w * h'', [], ''    return x'']"

definition area_def :: ast_node where
  "area_def =
     Node (FunctionDef ''area'') (Some 1) (Some 5)
       [Node OtherNode None None
          [Node OtherNode (Some 1) (Some 1) [], Node OtherNode (Some 1) (Some 1) []],
        Node OtherNode (Some 3) (Some 3)
          [Node OtherNode (Some 3) (Some 3) [Node OtherNode None None []],
           Node OtherNode (Some 3) (Some 3)
             [Node OtherNode (Some 3) (Some 3) [Node OtherNode None None []],
              Node OtherNode None None [],
              Node OtherNode (Some 3) (Some 3) [Node OtherNode None None []]]],
        Node OtherNode (Some 5) (Some 5)
          [Node OtherNode (Some 5) (Some 5) [Node OtherNode None None []]]]"

definition area_tree :: ast_node where
  "area_tree = Node OtherNode None None [area_def]"

text \<open>A Python file that does not parse.\<close>

definition broken_py :: string where
  "broken_py = join_nl [''def broken(:'', ''    return 1'']"

text \<open>
  The environment of the sample: the files, what the parser and the four patterns find
  in them (each JavaScript file holds one function declaration, at offset 0, and nothing
  the other patterns match), futures that complete in reverse order, and a placeholder
  for the digest, of which the statements below use no property.
\<close>

definition sample_files :: "(string \<times> string) list" where
  "sample_files =
     [(''/proj/src/spacing.js'', spacing_js),
      (''/proj/src/login.js'', login_js),
      (''/proj/a/index.js'', start_js),
      (''/proj/b/index.js'', stop_js),
      (''/proj/area.py'', area_py),
      (''/proj/broken.py'', broken_py)]"

definition sample_env :: env where
  "sample_env =
     \<lparr> md5_hexdigest = (\<lambda>s. s),
       ast_parse = (\<lambda>c. if c = area_py then Inr area_tree else Inl SyntaxError),
       re_finditer = (\<lambda>pattern c.
          if pattern = FunctionPattern
          then (case map_of [(spacing_js, [(''f'', 0)]), (login_js, [(''testLogin'', 0)]),
                             (start_js, [(''start'', 0)]), (stop_js, [(''stop'', 0)])] c of
                  Some matches \<Rightarrow> matches | None \<Rightarrow> [])
          else []),
       re_findall_imports = (\<lambda>block. []),
       safe_read_text = map_of sample_files,
       as_completed = rev,
       time_start = 0,
       time_end = 1 \<rparr>"

text \<open>
  Ten files, more than the pool threshold allows once another joins them: the two
  \<^verbatim>\<open>index.js\<close> files and eight files that are gone when the extractor reads them.
\<close>

definition pool_files :: "string list" where
  "pool_files = [''/proj/a/index.js'', ''/proj/b/index.js'']
     @ map (\<lambda>n. ''/proj/old/'' @ n @ ''.py'')
         [''cli'', ''db'', ''io'', ''log'', ''net'', ''ui'', ''util'', ''web'']"

definition sample_project :: "string list \<Rightarrow> project" where
  "sample_project files = \<lparr> project_name = ''proj'', code_files = files \<rparr>"

text \<open>The fragments that the extractors build from the sample files.\<close>

definition spacing_fragment :: fragment where
  "spacing_fragment =
     \<lparr> uid = ''proj:spacing.js:'', name = ''f'', type = ''JS/Function'',
       file = ''/proj/src/spacing.js'', project = ''proj'', code = spacing_js, lines = 5,
       quality = 5, start_line = 1, end_line = 5, dependencies = [], imports = [],
       exports = [], complexity = 1, documentation_ratio = 0, has_types = False,
       has_tests = False, has_error_handling = False, tags = [], embedding_hash = None,
       similar_fragments = [] \<rparr>"

definition login_fragment :: fragment where
  "login_fragment =
     \<lparr> uid = ''proj:login.js:0'', name = ''testLogin'', type = ''JS/Function'',
       file = ''/proj/src/login.js'', project = ''proj'', code = login_js, lines = 6,
       quality = 6, start_line = 1, end_line = 6, dependencies = [], imports = [],
       exports = [], complexity = 1, documentation_ratio = 0, has_types = False,
       has_tests = False, has_error_handling = False, tags = [], embedding_hash = None,
       similar_fragments = [] \<rparr>"

definition start_fragment :: fragment where
  "start_fragment =
     \<lparr> uid = ''proj:index.js:0'', name = ''start'', type = ''JS/Function'',
       file = ''/proj/a/index.js'', project = ''proj'', code = start_js, lines = 6,
       quality = 6, start_line = 1, end_line = 6, dependencies = [], imports = [],
       exports = [], complexity = 1, documentation_ratio = 0, has_types = False,
       has_tests = False, has_error_handling = False, tags = [], embedding_hash = None,
       similar_fragments = [] \<rparr>"

definition stop_fragment :: fragment where
  "stop_fragment =
     \<lparr> uid = ''proj:index.js:0'', name = ''stop'', type = ''JS/Function'',
       file = ''/proj/b/index.js'', project = ''proj'', code = stop_js, lines = 6,
       quality = 6, start_line = 1, end_line = 6, dependencies = [], imports = [],
       exports = [], complexity = 1, documentation_ratio = 0, has_types = False,
       has_tests = False, has_error_handling = False, tags = [], embedding_hash = None,
       similar_fragments = [] \<rparr>"

definition area_fragment :: fragment where
  "area_fragment =
     \<lparr> uid = ''proj:area.py:0'', name = ''area'', type = ''PythonFunc'',
       file = ''/proj/area.py'', project = ''proj'', code = area_py, lines = 5,
       quality = 5, start_line = 1, end_line = 5, dependencies = [], imports = [],
       exports = [], complexity = 1, documentation_ratio = 0, has_types = False,
       has_tests = False, has_error_handling = False, tags = [], embedding_hash = None,
       similar_fragments = [] \<rparr>"

text \<open>A configuration that breaks three of the rules of \<open>validate\<close>.\<close>

definition bad_config :: config where
  "bad_config = default_config \<lparr> min_quality := 0, min_lines := 10, max_lines := 5,
                                max_workers := 0 \<rparr>"

section \<open>The score is bounded\<close>

text \<open>
  C1. For every code text, every dialect and every fragment kind the scorer returns a
  score between 1 and 10, the empty, the blank and the comment-only text included.
\<close>

theorem assess_quality_enhanced_score_range:
  "1 \<le> fst (assess_quality_enhanced c lang fragment_type)
   \<and> fst (assess_quality_enhanced c lang fragment_type) \<le> 10"
proof -
  have "\<exists>score m. assess_quality_enhanced c lang fragment_type = (max 1 (min 10 score), m)"
    unfolding assess_quality_enhanced_def Let_def
    by (rule exI, rule exI, rule refl)
  then obtain score m where
    "assess_quality_enhanced c lang fragment_type = (max 1 (min 10 score), m)"
    by blast
  then show ?thesis by simp
qed

section \<open>Final ordering\<close>

lemma sort_fragments_sorted:
  "sorted_wrt (\<lambda>a b. (quality a, lines a) \<ge> (quality b, lines b)) (sort_fragments frags)"
proof -
  let ?k = "\<lambda>f. (quality f, lines f)"
  have "sorted (map ?k (sort_key ?k (rev frags)))" by (rule sorted_sort_key)
  then have "sorted (rev (map ?k (sort_fragments frags)))"
    by (simp add: sort_fragments_def rev_map)
  then have "sorted_wrt (\<lambda>x y. x \<ge> y) (map ?k (sort_fragments frags))"
    by (simp add: sorted_wrt_rev)
  then show ?thesis by (simp add: sorted_wrt_map)
qed

lemma set_sort_fragments: "set (sort_fragments frags) = set frags"
  by (simp add: sort_fragments_def)

lemma extract_fragments_Inr:
  "extract_fragments e projects cfg = Inr r
   \<Longrightarrow> \<exists>frags. extract_fragments_parallel e projects cfg = Inr frags
        \<and> fragments r = sort_fragments frags"
  by (auto simp: extract_fragments_def split: sum.splits)

text \<open>
  C3. The fragments of every result are in descending order of the pair (quality, lines):
  a fragment never comes before one of higher quality, nor before one of the same quality
  with more lines. Fragments of quality 6, 9, 9 with 40, 10, 50 lines come out as 9 with
  50 lines, 9 with 10 lines, 6 with 40 lines.
\<close>

theorem extract_fragments_sorted:
  "(extract_fragments e projects cfg = Inr r
    \<longrightarrow> sorted_wrt (\<lambda>a b. (quality a, lines a) \<ge> (quality b, lines b)) (fragments r))
   \<and> map (\<lambda>f. (quality f, lines f))
        (sort_fragments [new_fragment u1 n1 t1 f1 p1 c1 40 6 s1,
                         new_fragment u2 n2 t2 f2 p2 c2 10 9 s2,
                         new_fragment u3 n3 t3 f3 p3 c3 50 9 s3])
      = [(9, 50), (9, 10), (6, 40)]"
proof
  show "extract_fragments e projects cfg = Inr r
    \<longrightarrow> sorted_wrt (\<lambda>a b. (quality a, lines a) \<ge> (quality b, lines b)) (fragments r)"
    using sort_fragments_sorted by (auto dest!: extract_fragments_Inr)
next
  show "map (\<lambda>f. (quality f, lines f))
        (sort_fragments [new_fragment u1 n1 t1 f1 p1 c1 40 6 s1,
                         new_fragment u2 n2 t2 f2 p2 c2 10 9 s2,
                         new_fragment u3 n3 t3 f3 p3 c3 50 9 s3])
      = [(9, 50), (9, 10), (6, 40)]"
    by (simp add: sort_fragments_def new_fragment_def less_eq_prod_def less_prod_def)
qed

theorem extract_fragments_sorted_witness:
  "extract_fragments sample_env
     [sample_project [''/proj/src/spacing.js'', ''/proj/a/index.js'']] default_config
   = Inr \<lparr> fragments = [cache_hash sample_env start_fragment,
                          cache_hash sample_env spacing_fragment],
           extraction_time = 1 \<rparr>
   \<and> sorted_wrt (\<lambda>a b. (quality a, lines a) \<ge> (quality b, lines b))
        [cache_hash sample_env start_fragment, cache_hash sample_env spacing_fragment]"
proof -
  have run: "extract_fragments sample_env
     [sample_project [''/proj/src/spacing.js'', ''/proj/a/index.js'']] default_config
   = Inr \<lparr> fragments = [cache_hash sample_env start_fragment,
                          cache_hash sample_env spacing_fragment],
           extraction_time = 1 \<rparr>"
    by code_simp
  show ?thesis
    using extract_fragments_sorted [THEN conjunct1, rule_format, OF run] run by simp
qed

section \<open>Configuration\<close>

lemma extract_fragments_parallel_Inl:
  "(\<exists>err. extract_fragments_parallel e projects cfg = Inl err)
   \<longleftrightarrow> parallel_scan cfg \<and> 10 < sum_list (map (\<lambda>p. length (code_files p)) projects)
       \<and> max_workers cfg \<le> 0"
  by (simp add: extract_fragments_parallel_def Let_def)

text \<open>
  C4, as amended. A configuration with \<open>max_lines < min_lines\<close>, with \<open>min_quality\<close>
  outside 1 to 10 or with \<open>max_workers < 1\<close> is reported by \<open>validate\<close>, which returns
  a non-empty list of issues. The extraction entry point does not validate: it fails
  exactly when the parallel branch (parallel scan switched on, more than 10 files)
  builds a worker pool of size below one, and returns a result otherwise.
\<close>

theorem validate_reports_and_extract_fails_only_in_pool:
  "(max_lines cfg < min_lines cfg \<or> min_quality cfg < 1 \<or> 10 < min_quality cfg
      \<or> max_workers cfg < 1 \<longrightarrow> validate cfg \<noteq> [])
   \<and> ((\<exists>err. extract_fragments e projects cfg = Inl err)
        \<longleftrightarrow> parallel_scan cfg
            \<and> 10 < sum_list (map (\<lambda>p. length (code_files p)) projects)
            \<and> max_workers cfg < 1)"
proof
  show "max_lines cfg < min_lines cfg \<or> min_quality cfg < 1 \<or> 10 < min_quality cfg
      \<or> max_workers cfg < 1 \<longrightarrow> validate cfg \<noteq> []"
    by (auto simp: validate_def)
next
  have "(\<exists>err. extract_fragments e projects cfg = Inl err)
      \<longleftrightarrow> (\<exists>err. extract_fragments_parallel e projects cfg = Inl err)"
    by (auto simp: extract_fragments_def split: sum.splits)
  then show "(\<exists>err. extract_fragments e projects cfg = Inl err)
        \<longleftrightarrow> parallel_scan cfg
            \<and> 10 < sum_list (map (\<lambda>p. length (code_files p)) projects)
            \<and> max_workers cfg < 1"
    using extract_fragments_parallel_Inl [of e projects cfg] by auto
qed

theorem validate_reports_and_extract_fails_only_in_pool_witness:
  "max_lines bad_config < min_lines bad_config \<and> validate bad_config \<noteq> []"
  using validate_reports_and_extract_fails_only_in_pool [of bad_config sample_env "[]"]
  by (simp add: bad_config_def default_config_def)

text \<open>
  C4 as stated fails: the sample configuration breaks three rules of \<open>validate\<close>, and
  the entry point still returns a result, an empty one.
\<close>

theorem extract_fragments_accepts_invalid_config:
  "validate bad_config = [''min_quality must be between 1-10'',
                          ''max_lines must be >= min_lines'', ''max_workers must be >= 1'']
   \<and> extract_fragments sample_env [sample_project [''/proj/a/index.js'']] bad_config
       = Inr \<lparr> fragments = [], extraction_time = 1 \<rparr>"
  by code_simp

section \<open>Deduplication\<close>

lemma dedup_step_alt:
  "dedup_step e frag (se, ss, u) =
     (if code_hash e frag \<in> se \<or> sem_hash e frag \<in> ss then (se, ss, u)
      else (insert (code_hash e frag) se, insert (sem_hash e frag) ss, u @ [cache_hash e frag]))"
  by (simp add: dedup_step_def compute_embedding_hash_def Let_def code_hash_def sem_hash_def
      cache_hash_def)

lemma hash_cache [simp]:
  "code_hash e (cache_hash e f) = code_hash e f"
  "sem_hash e (cache_hash e f) = sem_hash e f"
  "cache_hash e (cache_hash e f) = cache_hash e f"
  by (simp_all add: compute_embedding_hash_def Let_def code_hash_def sem_hash_def
      cache_hash_def)

lemma dedup_inv_step: "dedup_inv e st \<Longrightarrow> dedup_inv e (dedup_step e frag st)"
  by (cases st) (auto simp: dedup_inv_def dedup_step_alt)

lemma dedup_inv_fold: "dedup_inv e st \<Longrightarrow> dedup_inv e (fold (dedup_step e) frags st)"
  by (induction frags arbitrary: st) (simp_all add: dedup_inv_step)

lemma dedup_inv_init: "dedup_inv e ({}, {}, [])"
  by (simp add: dedup_inv_def)

lemma dedup_fold_fixed:
  "distinct (map (code_hash e) ys) \<Longrightarrow> distinct (map (sem_hash e) ys)
   \<Longrightarrow> \<forall>f\<in>set ys. cache_hash e f = f
   \<Longrightarrow> code_hash e ` set ys \<inter> se = {} \<Longrightarrow> sem_hash e ` set ys \<inter> ss = {}
   \<Longrightarrow> snd (snd (fold (dedup_step e) ys (se, ss, u))) = u @ ys"
proof (induction ys arbitrary: se ss u)
  case Nil
  then show ?case by simp
next
  case (Cons y ys)
  have step: "dedup_step e y (se, ss, u)
      = (insert (code_hash e y) se, insert (sem_hash e y) ss, u @ [y])"
    using Cons.prems by (auto simp: dedup_step_alt)
  have "snd (snd (fold (dedup_step e) ys
      (insert (code_hash e y) se, insert (sem_hash e y) ss, u @ [y]))) = (u @ [y]) @ ys"
    using Cons.prems by (intro Cons.IH) auto
  then show ?case by (simp add: step)
qed

lemma dedup_state:
  obtains se ss where "fold (dedup_step e) frags ({}, {}, []) = (se, ss, deduplicate_fragments e frags)"
    and "dedup_inv e (se, ss, deduplicate_fragments e frags)"
proof -
  obtain se ss u where st: "fold (dedup_step e) frags ({}, {}, []) = (se, ss, u)"
    by (metis prod_cases3)
  have "dedup_inv e (se, ss, u)"
    using dedup_inv_fold [OF dedup_inv_init, of e frags] st by simp
  moreover have "u = deduplicate_fragments e frags"
    by (simp add: deduplicate_fragments_def st)
  ultimately show thesis using st that by simp
qed

lemma dedup_idem:
  "deduplicate_fragments e (deduplicate_fragments e frags) = deduplicate_fragments e frags"
proof -
  obtain se ss where "dedup_inv e (se, ss, deduplicate_fragments e frags)"
    by (rule dedup_state)
  then have "snd (snd (fold (dedup_step e) (deduplicate_fragments e frags) ({}, {}, [])))
      = [] @ deduplicate_fragments e frags"
    by (intro dedup_fold_fixed) (auto simp: dedup_inv_def)
  then show ?thesis by (simp add: deduplicate_fragments_def)
qed

lemma dedup_snoc:
  "deduplicate_fragments e (frags @ [frag]) =
     (if code_hash e frag \<in> code_hash e ` set (deduplicate_fragments e frags)
         \<or> sem_hash e frag \<in> sem_hash e ` set (deduplicate_fragments e frags)
      then deduplicate_fragments e frags
      else deduplicate_fragments e frags @ [cache_hash e frag])"
proof -
  obtain se ss where st: "fold (dedup_step e) frags ({}, {}, []) = (se, ss, deduplicate_fragments e frags)"
    and "dedup_inv e (se, ss, deduplicate_fragments e frags)"
    by (rule dedup_state)
  then have "se = code_hash e ` set (deduplicate_fragments e frags)"
    "ss = sem_hash e ` set (deduplicate_fragments e frags)"
    by (simp_all add: dedup_inv_def)
  moreover have "deduplicate_fragments e (frags @ [frag])
      = snd (snd (dedup_step e frag (fold (dedup_step e) frags ({}, {}, []))))"
    by (simp add: deduplicate_fragments_def)
  then have "deduplicate_fragments e (frags @ [frag])
      = snd (snd (dedup_step e frag (se, ss, deduplicate_fragments e frags)))"
    by (simp only: st)
  ultimately show ?thesis
    by (simp add: dedup_step_alt)
qed

text \<open>
  C5. A second deduplication pass over the output of a first one drops nothing and
  returns that output. Within one pass the first occurrence wins: a fragment that comes
  after the others is dropped exactly when its code digest or its semantic digest is
  that of a fragment already kept, and the fragments kept before it stay as they are.
\<close>

theorem deduplicate_fragments_idempotent_first_wins:
  "deduplicate_fragments e (deduplicate_fragments e frags) = deduplicate_fragments e frags
   \<and> deduplicate_fragments e (frags @ [frag]) =
       (if code_hash e frag \<in> code_hash e ` set (deduplicate_fragments e frags)
           \<or> fst (compute_embedding_hash e frag)
              \<in> (\<lambda>f. fst (compute_embedding_hash e f)) ` set (deduplicate_fragments e frags)
        then deduplicate_fragments e frags
        else deduplicate_fragments e frags @ [snd (compute_embedding_hash e frag)])"
proof -
  have sem: "sem_hash e = (\<lambda>f. fst (compute_embedding_hash e f))"
    by (rule ext) (simp add: sem_hash_def)
  show ?thesis
    using conjI [OF dedup_idem [of e frags] dedup_snoc [of e frags frag]]
    unfolding sem cache_hash_def .
qed

section \<open>What the extractors put into a fragment\<close>

lemma in_set_map_filter:
  "y \<in> set (List.map_filter g xs) \<longleftrightarrow> (\<exists>x\<in>set xs. g x = Some y)"
  by (induction xs) (auto simp: List.map_filter_simps split: option.splits)

lemma js_fragment_SomeD:
  assumes "js_fragment e c fp proj cfg ft m = Some f"
  shows "uid f = stable_uid e proj (path_name fp) (str_int (start_line f - 1))"
    and "file f = fp" and "project f = proj"
    and "lines f = int (length (splitlines (code f)))"
    and "type f = ''JS/'' @ ft"
    and "\<not> has_tests f"
    and "min_lines cfg \<le> lines f" and "lines f \<le> max_lines cfg"
  using assms
  by (auto simp: js_fragment_def Let_def new_fragment_def split: prod.splits if_splits)

lemma python_fragment_SomeD:
  assumes "python_fragment e lns fp proj cfg node = Some f"
  shows "uid f = stable_uid e proj (path_name fp) (str_int (start_line f - 1))"
    and "file f = fp" and "project f = proj"
    and "code f = join_nl (py_slice lns (start_line f - 1) (end_line f))"
    and "lines f = int (length (py_slice lns (start_line f - 1) (end_line f)))"
    and "type f \<in> {''PythonFunc'', ''PythonAsyncFunc'', ''PythonClass''}"
    and "has_tests f = m_is_test (snd (assess_quality_enhanced (code f) ''python'' (type f)))"
    and "min_lines cfg \<le> lines f" and "lines f \<le> max_lines cfg"
  using assms
  by (auto simp: python_fragment_def Let_def new_fragment_def
      split: prod.splits if_splits option.splits node_kind.splits)

lemma extract_js_fragments_D:
  "f \<in> set (extract_js_fragments e c fp proj cfg)
   \<Longrightarrow> \<exists>ft m. js_fragment e c fp proj cfg ft m = Some f"
  by (auto simp: extract_js_fragments_def in_set_map_filter)

lemma extract_python_fragments_D:
  "f \<in> set (extract_python_fragments e c fp proj cfg)
   \<Longrightarrow> \<exists>node. python_fragment e (splitlines c) fp proj cfg node = Some f"
  by (auto simp: extract_python_fragments_def in_set_map_filter split: sum.splits)

lemma extract_from_file_D:
  "f \<in> set (extract_from_file e fp p cfg)
   \<Longrightarrow> \<exists>c. safe_read_text e fp = Some c
        \<and> (f \<in> set (extract_python_fragments e c fp (project_name p) cfg)
           \<or> f \<in> set (extract_js_fragments e c fp (project_name p) cfg))"
  by (cases "safe_read_text e fp") (auto simp: extract_from_file_def split: if_splits)

section \<open>Where the fragments of a result come from\<close>

lemma dedup_fold_subset:
  "set (snd (snd (fold (dedup_step e) xs (se, ss, u)))) \<subseteq> set u \<union> cache_hash e ` set xs"
proof (induction xs arbitrary: se ss u)
  case Nil
  then show ?case by simp
next
  case (Cons x xs)
  show ?case
    using Cons.IH [of se ss u]
      Cons.IH [of "insert (code_hash e x) se" "insert (sem_hash e x) ss" "u @ [cache_hash e x]"]
    by (auto simp: dedup_step_alt)
qed

lemma dedup_subset: "set (deduplicate_fragments e frags) \<subseteq> cache_hash e ` set frags"
  using dedup_fold_subset [of e frags "{}" "{}" "[]"] by (simp add: deduplicate_fragments_def)

lemma as_completed_set:
  "as_completed_permutes e \<Longrightarrow> set (as_completed e results) = set results"
  by (metis as_completed_permutes_def set_mset_mset)

lemma parallel_origin:
  assumes "as_completed_permutes e" and "extract_fragments_parallel e projects cfg = Inr frags"
    and "f \<in> set frags"
  shows "\<exists>fp p f0. (fp, p) \<in> set (file_units projects) \<and> f0 \<in> set (extract_from_file e fp p cfg)
           \<and> (f = f0 \<or> f = cache_hash e f0)"
proof -
  define results where
    "results = map (\<lambda>(file_path, p). extract_from_file e file_path p cfg) (file_units projects)"
  define total where "total = sum_list (map (\<lambda>p. length (code_files p)) projects)"
  define raw where
    "raw = (if parallel_scan cfg \<and> total > 10 then concat (as_completed e results)
            else concat results)"
  define dd where "dd = (if deduplicate cfg then deduplicate_fragments e raw else raw)"
  have "extract_fragments_parallel e projects cfg =
      (if parallel_scan cfg \<and> total > 10 \<and> max_workers cfg \<le> 0 then Inl ValueError
       else Inr (if skip_tests cfg then filter (\<lambda>f. \<not> has_tests f) dd else dd))"
    by (simp add: extract_fragments_parallel_def Let_def results_def total_def raw_def dd_def)
  then have frags: "frags = (if skip_tests cfg then filter (\<lambda>f. \<not> has_tests f) dd else dd)"
    using assms(2) by (simp split: if_splits)
  have raw: "set raw = set (concat results)"
    using as_completed_set [OF assms(1)] by (simp add: raw_def)
  have "f \<in> set dd"
    using assms(3) frags by (simp split: if_splits)
  then have "f \<in> set raw \<or> f \<in> cache_hash e ` set raw"
    using dedup_subset [of e raw] by (auto simp: dd_def split: if_splits)
  then obtain f0 where f0: "f0 \<in> set (concat results)" "f = f0 \<or> f = cache_hash e f0"
    using raw by auto
  then obtain fp p where "(fp, p) \<in> set (file_units projects)"
      "f0 \<in> set (extract_from_file e fp p cfg)"
    by (auto simp: results_def)
  with f0 show ?thesis by blast
qed

lemma result_origin:
  assumes "as_completed_permutes e" and "extract_fragments e projects cfg = Inr r"
    and "f \<in> set (fragments r)"
  shows "\<exists>fp p f0. (fp, p) \<in> set (file_units projects) \<and> f0 \<in> set (extract_from_file e fp p cfg)
           \<and> (f = f0 \<or> f = cache_hash e f0)"
proof -
  obtain frags where "extract_fragments_parallel e projects cfg = Inr frags"
      "fragments r = sort_fragments frags"
    using extract_fragments_Inr [OF assms(2)] by blast
  then show ?thesis
    using parallel_origin [OF assms(1), of projects cfg frags f] assms(3)
    by (simp add: set_sort_fragments)
qed

lemma cache_hash_fields [simp]:
  "uid (cache_hash e f) = uid f" "file (cache_hash e f) = file f"
  "project (cache_hash e f) = project f" "code (cache_hash e f) = code f"
  "lines (cache_hash e f) = lines f" "start_line (cache_hash e f) = start_line f"
  "end_line (cache_hash e f) = end_line f" "type (cache_hash e f) = type f"
  "has_tests (cache_hash e f) = has_tests f" "quality (cache_hash e f) = quality f"
  by (simp_all add: cache_hash_def compute_embedding_hash_def Let_def)

lemma result_fragment_cases:
  assumes "as_completed_permutes e" and "extract_fragments e projects cfg = Inr r"
    and "f \<in> set (fragments r)"
  obtains (js) fp p c f0 ft m where "(fp, p) \<in> set (file_units projects)"
      "safe_read_text e fp = Some c" "f = f0 \<or> f = cache_hash e f0"
      "js_fragment e c fp (project_name p) cfg ft m = Some f0"
  | (python) fp p c f0 node where "(fp, p) \<in> set (file_units projects)"
      "safe_read_text e fp = Some c" "f = f0 \<or> f = cache_hash e f0"
      "python_fragment e (splitlines c) fp (project_name p) cfg node = Some f0"
proof -
  obtain fp p f0 where o: "(fp, p) \<in> set (file_units projects)"
      "f0 \<in> set (extract_from_file e fp p cfg)" "f = f0 \<or> f = cache_hash e f0"
    using result_origin [OF assms] by blast
  obtain c where c: "safe_read_text e fp = Some c"
      "f0 \<in> set (extract_python_fragments e c fp (project_name p) cfg)
       \<or> f0 \<in> set (extract_js_fragments e c fp (project_name p) cfg)"
    using extract_from_file_D [OF o(2)] by blast
  from c(2) show thesis
  proof
    assume "f0 \<in> set (extract_python_fragments e c fp (project_name p) cfg)"
    then show thesis
      using extract_python_fragments_D python o c(1) by blast
  next
    assume "f0 \<in> set (extract_js_fragments e c fp (project_name p) cfg)"
    then show thesis
      using extract_js_fragments_D js o c(1) by blast
  qed
qed

lemma result_uid:
  assumes "as_completed_permutes e" and "extract_fragments e projects cfg = Inr r"
    and "f \<in> set (fragments r)"
  shows "uid f = stable_uid e (project f) (path_name (file f)) (str_int (start_line f - 1))"
  using assms
proof (cases rule: result_fragment_cases)
  case (js fp p c f0 ft m)
  then show ?thesis using js_fragment_SomeD(1-3) [OF js(4)] by auto
next
  case (python fp p c f0 node)
  then show ?thesis using python_fragment_SomeD(1-3) [OF python(4)] by auto
qed

section \<open>The line filter\<close>

lemma sample_area_fragment_run:
  "python_fragment sample_env (splitlines area_py) ''/proj/area.py'' ''proj'' default_config
     area_def = Some area_fragment"
  by code_simp

text \<open>
  C2 as stated fails: the block of the sample has three non-blank lines, the
  configuration asks for five lines, and the block is kept, because with its two blank
  lines it has five physical lines.
\<close>

theorem line_filter_keeps_three_nonblank_lines:
  "extract_js_fragments sample_env spacing_js ''/proj/src/spacing.js'' ''proj'' default_config
     = [spacing_fragment]
   \<and> nonblank_count (code spacing_fragment) = 3
   \<and> min_lines default_config = 5"
  by code_simp

text \<open>
  C2, as amended. In both dialects a block is discarded exactly when its count of
  physical lines, blank lines included, is outside \<open>[min_lines, max_lines]\<close> or its
  score is below \<open>min_quality\<close>: the line filter counts every line of the block, and a
  block inside the range is dropped by the quality threshold only. For the Python
  dialect the block is that of a definition node whose span lies in the file.
\<close>

theorem line_filter_counts_physical_lines:
  "(js_fragment e c fp proj cfg ft m = None
      \<longleftrightarrow> (let block = fst (extract_js_block (splitlines c) (py_count (take (snd m) c) [CHR 0x0A]));
               n = int (length (splitlines block))
           in n < min_lines cfg \<or> max_lines cfg < n
              \<or> fst (assess_quality_enhanced block ''javascript'' ft) < min_quality cfg))
   \<and> ((kind node, pt) \<in> {(FunctionDef nm, ''PythonFunc''),
                            (AsyncFunctionDef nm, ''PythonAsyncFunc''),
                            (ClassDef nm, ''PythonClass'')}
        \<longrightarrow> lineno node = Some l \<longrightarrow> end_lineno node = Some l'
        \<longrightarrow> 1 \<le> l \<longrightarrow> l \<le> int (length lns) \<longrightarrow> l' \<le> int (length lns)
        \<longrightarrow> (python_fragment e lns fp proj cfg node = None
             \<longleftrightarrow> (let block_lines = py_slice lns (l - 1) l';
                      n = int (length block_lines)
                  in n < min_lines cfg \<or> max_lines cfg < n
                     \<or> fst (assess_quality_enhanced (join_nl block_lines) ''python'' pt)
                        < min_quality cfg)))"
proof (intro conjI impI)
  show "js_fragment e c fp proj cfg ft m = None
      \<longleftrightarrow> (let block = fst (extract_js_block (splitlines c) (py_count (take (snd m) c) [CHR 0x0A]));
               n = int (length (splitlines block))
           in n < min_lines cfg \<or> max_lines cfg < n
              \<or> fst (assess_quality_enhanced block ''javascript'' ft) < min_quality cfg)"
    by (auto simp: js_fragment_def Let_def split: prod.splits)
next
  assume "(kind node, pt) \<in> {(FunctionDef nm, ''PythonFunc''),
                            (AsyncFunctionDef nm, ''PythonAsyncFunc''),
                            (ClassDef nm, ''PythonClass'')}"
    and "lineno node = Some l" and "end_lineno node = Some l'"
    and "1 \<le> l" and "l \<le> int (length lns)" and "l' \<le> int (length lns)"
  then show "python_fragment e lns fp proj cfg node = None
             \<longleftrightarrow> (let block_lines = py_slice lns (l - 1) l';
                      n = int (length block_lines)
                  in n < min_lines cfg \<or> max_lines cfg < n
                     \<or> fst (assess_quality_enhanced (join_nl block_lines) ''python'' pt)
                        < min_quality cfg)"
    by (auto simp: python_fragment_def Let_def split: prod.splits if_splits)
qed

theorem line_filter_counts_physical_lines_witness:
  "(kind area_def, ''PythonFunc'') \<in> {(FunctionDef ''area'', ''PythonFunc''),
                            (AsyncFunctionDef ''area'', ''PythonAsyncFunc''),
                            (ClassDef ''area'', ''PythonClass'')}
   \<and> lineno area_def = Some 1 \<and> end_lineno area_def = Some 5
   \<and> (1::int) \<le> 1 \<and> 1 \<le> int (length (splitlines area_py))
   \<and> 5 \<le> int (length (splitlines area_py))
   \<and> python_fragment sample_env (splitlines area_py) ''/proj/area.py'' ''proj'' default_config
        area_def = Some area_fragment
   \<and> \<not> (let block_lines = py_slice (splitlines area_py) (1 - 1) 5;
             n = int (length block_lines)
         in n < min_lines default_config \<or> max_lines default_config < n
            \<or> fst (assess_quality_enhanced (join_nl block_lines) ''python'' ''PythonFunc'')
               < min_quality default_config)"
proof -
  have k: "(kind area_def, ''PythonFunc'') \<in> {(FunctionDef ''area'', ''PythonFunc''),
                            (AsyncFunctionDef ''area'', ''PythonAsyncFunc''),
                            (ClassDef ''area'', ''PythonClass'')}"
    and l: "lineno area_def = Some 1" and l': "end_lineno area_def = Some 5"
    by (simp_all add: area_def_def)
  have n: "1 \<le> int (length (splitlines area_py))" "5 \<le> int (length (splitlines area_py))"
    by code_simp+
  have run: "python_fragment sample_env (splitlines area_py) ''/proj/area.py'' ''proj''
      default_config area_def = Some area_fragment"
    by (rule sample_area_fragment_run)
  have "python_fragment sample_env (splitlines area_py) ''/proj/area.py'' ''proj''
      default_config area_def = None
    \<longleftrightarrow> (let block_lines = py_slice (splitlines area_py) (1 - 1) 5;
             n = int (length block_lines)
         in n < min_lines default_config \<or> max_lines default_config < n
            \<or> fst (assess_quality_enhanced (join_nl block_lines) ''python'' ''PythonFunc'')
               < min_quality default_config)"
    using line_filter_counts_physical_lines [THEN conjunct2, rule_format, OF k l l' _ n]
    by simp
  with run k l l' n show ?thesis by (simp only: option.distinct simp_thms)
qed

section \<open>Test fragments\<close>

lemma js_fragments_never_marked_as_tests:
  "f \<in> set (extract_js_fragments e c fp proj cfg) \<Longrightarrow> \<not> has_tests f"
  using extract_js_fragments_D js_fragment_SomeD(6) by blast

text \<open>
  C6 on the sample: the JavaScript function \<open>testLogin\<close> is a test for the scorer, the
  configuration asks to skip tests, and the fragment is in the result, with its
  \<open>has_tests\<close> field unset. The Python extractor copies the signal into the fragment;
  the JavaScript extractor does not.
\<close>

theorem skip_tests_keeps_js_test_fragment:
  "extract_fragments sample_env [sample_project [''/proj/src/login.js'']]
     (default_config \<lparr> skip_tests := True \<rparr>)
     = Inr \<lparr> fragments = [cache_hash sample_env login_fragment], extraction_time = 1 \<rparr>
   \<and> m_is_test (snd (assess_quality_enhanced (code login_fragment) ''javascript'' ''Function''))
   \<and> \<not> has_tests (cache_hash sample_env login_fragment)"
  by code_simp

section \<open>Identity\<close>

lemma sample_index_run:
  "extract_fragments sample_env [sample_project [''/proj/a/index.js'', ''/proj/b/index.js'']]
     default_config
     = Inr \<lparr> fragments = [cache_hash sample_env start_fragment,
                            cache_hash sample_env stop_fragment],
             extraction_time = 1 \<rparr>"
  by code_simp

text \<open>
  C7 on the sample. \<^verbatim>\<open>stable_uid\<close> is documented as the stable unique identifier
  of a fragment, and it is keyed with the name of the file without its directories. Two
  files of one project with the same name in different directories each give a fragment
  that starts on the first line: the two fragments are different, both are in the
  result, and they have the same uid. The key of both is the same string, so this holds
  for every digest.
\<close>

theorem two_fragments_share_uid:
  "extract_fragments sample_env [sample_project [''/proj/a/index.js'', ''/proj/b/index.js'']]
     default_config
     = Inr \<lparr> fragments = [cache_hash sample_env start_fragment,
                            cache_hash sample_env stop_fragment],
             extraction_time = 1 \<rparr>
   \<and> cache_hash sample_env start_fragment \<noteq> cache_hash sample_env stop_fragment
   \<and> uid (cache_hash sample_env start_fragment) = uid (cache_hash sample_env stop_fragment)"
proof -
  have "name (cache_hash sample_env start_fragment) \<noteq> name (cache_hash sample_env stop_fragment)"
    by (simp add: cache_hash_def compute_embedding_hash_def Let_def start_fragment_def
        stop_fragment_def)
  then have "cache_hash sample_env start_fragment \<noteq> cache_hash sample_env stop_fragment"
    by metis
  moreover have "uid (cache_hash sample_env start_fragment)
      = uid (cache_hash sample_env stop_fragment)"
    by (simp add: start_fragment_def stop_fragment_def)
  ultimately show ?thesis using sample_index_run by simp
qed

lemma same_name_same_uid:
  "stable_uid e proj (path_name ''/proj/a/index.js'') line
   = stable_uid e proj (path_name ''/proj/b/index.js'') line"
  by (simp add: stable_uid_def path_name_def)

text \<open>
  The other half of the claim holds. The uid of every fragment of a result is the first
  16 digits of the digest of the key made of its project name, the name of its file
  without the directories, and its start line counted from 0: two fragments with the
  same triple, of one run or of two runs with the same digest function, have the same
  uid.
\<close>

theorem uid_determined_by_triple:
  "as_completed_permutes e1 \<Longrightarrow> as_completed_permutes e2
   \<Longrightarrow> md5_hexdigest e1 = md5_hexdigest e2
   \<Longrightarrow> extract_fragments e1 projects1 cfg1 = Inr r1
   \<Longrightarrow> extract_fragments e2 projects2 cfg2 = Inr r2
   \<Longrightarrow> f \<in> set (fragments r1) \<Longrightarrow> g \<in> set (fragments r2)
   \<Longrightarrow> project f = project g \<Longrightarrow> path_name (file f) = path_name (file g)
   \<Longrightarrow> start_line f = start_line g
   \<Longrightarrow> uid f = stable_uid e1 (project f) (path_name (file f)) (str_int (start_line f - 1))
       \<and> uid g = uid f"
proof -
  assume a: "as_completed_permutes e1" "as_completed_permutes e2"
    "md5_hexdigest e1 = md5_hexdigest e2"
    "extract_fragments e1 projects1 cfg1 = Inr r1"
    "extract_fragments e2 projects2 cfg2 = Inr r2"
    "f \<in> set (fragments r1)" "g \<in> set (fragments r2)"
    "project f = project g" "path_name (file f) = path_name (file g)"
    "start_line f = start_line g"
  have "uid f = stable_uid e1 (project f) (path_name (file f)) (str_int (start_line f - 1))"
    using result_uid [OF a(1) a(4) a(6)] .
  moreover have "uid g = stable_uid e2 (project g) (path_name (file g)) (str_int (start_line g - 1))"
    using result_uid [OF a(2) a(5) a(7)] .
  ultimately show ?thesis
    using a(3,8,9,10) by (simp add: stable_uid_def)
qed

theorem uid_determined_by_triple_witness:
  "as_completed_permutes sample_env
   \<and> md5_hexdigest sample_env = md5_hexdigest sample_env
   \<and> extract_fragments sample_env
        [sample_project [''/proj/a/index.js'', ''/proj/b/index.js'']] default_config
       = Inr \<lparr> fragments = [cache_hash sample_env start_fragment,
                              cache_hash sample_env stop_fragment],
               extraction_time = 1 \<rparr>
   \<and> project (cache_hash sample_env start_fragment) = project (cache_hash sample_env stop_fragment)
   \<and> path_name (file (cache_hash sample_env start_fragment))
       = path_name (file (cache_hash sample_env stop_fragment))
   \<and> start_line (cache_hash sample_env start_fragment)
       = start_line (cache_hash sample_env stop_fragment)
   \<and> uid (cache_hash sample_env start_fragment)
       = stable_uid sample_env (project (cache_hash sample_env start_fragment))
           (path_name (file (cache_hash sample_env start_fragment)))
           (str_int (start_line (cache_hash sample_env start_fragment) - 1))
   \<and> uid (cache_hash sample_env stop_fragment) = uid (cache_hash sample_env start_fragment)"
proof -
  let ?f = "cache_hash sample_env start_fragment" and ?g = "cache_hash sample_env stop_fragment"
  let ?r = "\<lparr> fragments = [?f, ?g], extraction_time = 1 \<rparr>"
  have perm: "as_completed_permutes sample_env"
    by (simp add: as_completed_permutes_def sample_env_def)
  have run: "extract_fragments sample_env
        [sample_project [''/proj/a/index.js'', ''/proj/b/index.js'']] default_config = Inr ?r"
    by (rule sample_index_run)
  have mem: "?f \<in> set (fragments ?r)" "?g \<in> set (fragments ?r)"
    by simp_all
  have same: "project ?f = project ?g" "path_name (file ?f) = path_name (file ?g)"
      "start_line ?f = start_line ?g"
    by (simp_all add: start_fragment_def stop_fragment_def path_name_def)
  show ?thesis
    using uid_determined_by_triple [OF perm perm refl run run mem same] perm run same
    by blast
qed

section \<open>Parse failures\<close>

lemma extract_from_file_project_name:
  "project_name p = project_name p' \<Longrightarrow> extract_from_file e fp p cfg = extract_from_file e fp p' cfg"
  by (auto simp: extract_from_file_def split: option.splits)

lemma file_units_append: "file_units (ps1 @ ps2) = file_units ps1 @ file_units ps2"
  by (simp add: file_units_def)

lemma file_units_Cons:
  "file_units (p # ps) = map (\<lambda>file_path. (file_path, p)) (code_files p) @ file_units ps"
  by (simp add: file_units_def)

lemma sequential_run:
  assumes "parallel_scan cfg \<longrightarrow> sum_list (map (\<lambda>p. length (code_files p)) projects) \<le> 10"
  shows "extract_fragments_parallel e projects cfg =
     Inr (let all_fragments = concat (map (\<lambda>(file_path, p). extract_from_file e file_path p cfg)
                                           (file_units projects));
              all_fragments = (if deduplicate cfg then deduplicate_fragments e all_fragments
                               else all_fragments)
          in if skip_tests cfg then filter (\<lambda>f. \<not> has_tests f) all_fragments
             else all_fragments)"
  using assms by (auto simp: extract_fragments_parallel_def Let_def)

lemma extract_fragments_parallel_raw:
  "extract_fragments_parallel e projects cfg =
     (if parallel_scan cfg \<and> 10 < sum_list (map (\<lambda>p. length (code_files p)) projects)
         \<and> max_workers cfg \<le> 0
      then Inl ValueError
      else Inr (let all_fragments = raw_fragments e projects cfg;
                    all_fragments = (if deduplicate cfg
                                     then deduplicate_fragments e all_fragments
                                     else all_fragments)
                in if skip_tests cfg then filter (\<lambda>f. \<not> has_tests f) all_fragments
                   else all_fragments))"
  by (simp add: extract_fragments_parallel_def raw_fragments_def Let_def)

lemma mset_concat_permuted:
  assumes "mset xss = mset yss"
  shows "mset (concat xss) = mset (concat yss)"
proof -
  have "mset (concat xss) = sum_mset (image_mset mset (mset xss))"
    by (simp add: mset_concat flip: sum_mset_sum_list)
  also have "\<dots> = sum_mset (image_mset mset (mset yss))"
    using assms by simp
  also have "\<dots> = mset (concat yss)"
    by (simp add: mset_concat flip: sum_mset_sum_list)
  finally show ?thesis .
qed

lemma raw_fragments_mset:
  assumes "as_completed_permutes e"
  shows "mset (raw_fragments e projects cfg)
     = mset (concat (map (\<lambda>(file_path, p). extract_from_file e file_path p cfg)
                         (file_units projects)))"
proof -
  have "mset (concat (as_completed e rs)) = mset (concat rs)" for rs
    using assms by (intro mset_concat_permuted) (simp add: as_completed_permutes_def)
  then show ?thesis by (simp add: raw_fragments_def Let_def)
qed

text \<open>
  C8. A Python file whose text does not parse gives no fragments: the extractor returns
  the empty list and raises nothing, and so does the extraction of the file. The other
  files are not affected, on either branch of the orchestrator. The raw fragments of the
  batch with the file are those of the batch without it, each as often, whatever the
  order in which the futures of the pool complete. The batch with the file fails only
  where the pool refuses its size, never for the file. A batch that runs sequentially
  gives the same result with the file and without it.
\<close>

theorem parse_failure_is_local:
  "safe_read_text e fp = Some c \<Longrightarrow> path_suffix fp = ''.py'' \<Longrightarrow> ast_parse e c = Inl err
   \<Longrightarrow> as_completed_permutes e
   \<Longrightarrow> extract_python_fragments e c fp (project_name p) cfg = []
       \<and> extract_from_file e fp p cfg = []
       \<and> mset (raw_fragments e (pre @ p \<lparr> code_files := fs @ fp # gs \<rparr> # post) cfg)
         = mset (raw_fragments e (pre @ p \<lparr> code_files := fs @ gs \<rparr> # post) cfg)
       \<and> ((\<exists>err'. extract_fragments e (pre @ p \<lparr> code_files := fs @ fp # gs \<rparr> # post) cfg
                    = Inl err')
          \<longleftrightarrow> parallel_scan cfg
              \<and> 10 < sum_list (map (\<lambda>p. length (code_files p))
                                (pre @ p \<lparr> code_files := fs @ fp # gs \<rparr> # post))
              \<and> max_workers cfg \<le> 0)
       \<and> ((parallel_scan cfg \<longrightarrow>
             sum_list (map (\<lambda>p. length (code_files p))
                        (pre @ p \<lparr> code_files := fs @ fp # gs \<rparr> # post)) \<le> 10)
          \<longrightarrow> extract_fragments e (pre @ p \<lparr> code_files := fs @ fp # gs \<rparr> # post) cfg
              = extract_fragments e (pre @ p \<lparr> code_files := fs @ gs \<rparr> # post) cfg)"
proof -
  assume read: "safe_read_text e fp = Some c" and py: "path_suffix fp = ''.py''"
    and bad: "ast_parse e c = Inl err" and perm: "as_completed_permutes e"
  let ?with = "pre @ p \<lparr> code_files := fs @ fp # gs \<rparr> # post"
  let ?without = "pre @ p \<lparr> code_files := fs @ gs \<rparr> # post"
  let ?results = "\<lambda>ps. concat (map (\<lambda>(file_path, q). extract_from_file e file_path q cfg)
                                    (file_units ps))"
  have none: "extract_python_fragments e c fp (project_name p) cfg = []"
    using bad by (simp add: extract_python_fragments_def)
  have nofile: "extract_from_file e fp p cfg = []"
    using read py bad by (simp add: extract_from_file_def extract_python_fragments_def)
  have upd: "\<And>fp' fs'. extract_from_file e fp' (p \<lparr> code_files := fs' \<rparr>) cfg
      = extract_from_file e fp' p cfg"
    by (rule extract_from_file_project_name) simp
  have results: "?results ?with = ?results ?without"
    using nofile by (simp add: file_units_append file_units_Cons comp_def upd)
  have raw: "mset (raw_fragments e ?with cfg) = mset (raw_fragments e ?without cfg)"
    by (simp only: raw_fragments_mset [OF perm] results)
  have raises: "(\<exists>err'. extract_fragments e ?with cfg = Inl err')
      \<longleftrightarrow> parallel_scan cfg \<and> 10 < sum_list (map (\<lambda>p. length (code_files p)) ?with)
          \<and> max_workers cfg \<le> 0"
  proof -
    have "(\<exists>err'. extract_fragments e ?with cfg = Inl err')
        \<longleftrightarrow> (\<exists>err'. extract_fragments_parallel e ?with cfg = Inl err')"
      by (auto simp: extract_fragments_def split: sum.splits)
    then show ?thesis
      by (simp only: extract_fragments_parallel_Inl)
  qed
  have sequential: "extract_fragments e ?with cfg = extract_fragments e ?without cfg"
    if seq: "parallel_scan cfg \<longrightarrow> sum_list (map (\<lambda>p. length (code_files p)) ?with) \<le> 10"
  proof -
    have seq': "parallel_scan cfg \<longrightarrow>
        sum_list (map (\<lambda>p. length (code_files p)) ?without) \<le> 10"
      using seq by auto
    have "extract_fragments_parallel e ?with cfg = extract_fragments_parallel e ?without cfg"
      using results by (simp only: sequential_run [OF seq] sequential_run [OF seq'])
    then show ?thesis by (simp add: extract_fragments_def)
  qed
  show ?thesis
    using none nofile raw raises sequential by blast
qed


theorem parse_failure_is_local_witness:
  "safe_read_text sample_env ''/proj/broken.py'' = Some broken_py
   \<and> path_suffix ''/proj/broken.py'' = ''.py''
   \<and> ast_parse sample_env broken_py = Inl SyntaxError
   \<and> as_completed_permutes sample_env
   \<and> extract_python_fragments sample_env broken_py ''/proj/broken.py''
        (project_name (sample_project [])) default_config = []
   \<and> extract_from_file sample_env ''/proj/broken.py'' (sample_project []) default_config = []
   \<and> raw_fragments sample_env
        ([] @ (sample_project []) \<lparr> code_files := pool_files @ ''/proj/broken.py'' # [] \<rparr> # [])
        default_config = [stop_fragment, start_fragment]
   \<and> raw_fragments sample_env
        ([] @ (sample_project []) \<lparr> code_files := pool_files @ [] \<rparr> # [])
        default_config = [start_fragment, stop_fragment]
   \<and> mset (raw_fragments sample_env
        ([] @ (sample_project []) \<lparr> code_files := pool_files @ ''/proj/broken.py'' # [] \<rparr> # [])
        default_config)
       = mset (raw_fragments sample_env
        ([] @ (sample_project []) \<lparr> code_files := pool_files @ [] \<rparr> # [])
        default_config)
   \<and> sum_list (map (\<lambda>p. length (code_files p))
          ([] @ (sample_project []) \<lparr> code_files := [''/proj/area.py''] @ ''/proj/broken.py'' # [] \<rparr> # []))
        \<le> 10
   \<and> extract_fragments sample_env
        ([] @ (sample_project []) \<lparr> code_files := [''/proj/area.py''] @ ''/proj/broken.py'' # [] \<rparr> # [])
        default_config
       = extract_fragments sample_env
        ([] @ (sample_project []) \<lparr> code_files := [''/proj/area.py''] @ [] \<rparr> # []) default_config"
proof -
  have read: "safe_read_text sample_env ''/proj/broken.py'' = Some broken_py"
    by code_simp
  have py: "path_suffix ''/proj/broken.py'' = ''.py''"
    by code_simp
  have bad: "ast_parse sample_env broken_py = Inl SyntaxError"
    by code_simp
  have perm: "as_completed_permutes sample_env"
    by (simp add: as_completed_permutes_def sample_env_def)
  have pool: "raw_fragments sample_env
        ([] @ (sample_project []) \<lparr> code_files := pool_files @ ''/proj/broken.py'' # [] \<rparr> # [])
        default_config = [stop_fragment, start_fragment]"
    by code_simp
  have loop: "raw_fragments sample_env
        ([] @ (sample_project []) \<lparr> code_files := pool_files @ [] \<rparr> # [])
        default_config = [start_fragment, stop_fragment]"
    by code_simp
  have few: "sum_list (map (\<lambda>p. length (code_files p))
          ([] @ (sample_project []) \<lparr> code_files := [''/proj/area.py''] @ ''/proj/broken.py'' # [] \<rparr> # []))
        \<le> 10"
    by simp
  then have seq: "parallel_scan default_config \<longrightarrow>
        sum_list (map (\<lambda>p. length (code_files p))
          ([] @ (sample_project []) \<lparr> code_files := [''/proj/area.py''] @ ''/proj/broken.py'' # [] \<rparr> # []))
        \<le> 10"
    by (rule impI)
  note local = parse_failure_is_local
    [where pre = "[]" and post = "[]" and p = "sample_project []" and fs = pool_files
       and gs = "[]" and cfg = default_config, OF read py bad perm]
  note batch = parse_failure_is_local
    [where pre = "[]" and post = "[]" and p = "sample_project []"
       and fs = "[''/proj/area.py'']" and gs = "[]" and cfg = default_config,
     OF read py bad perm]
  have "extract_python_fragments sample_env broken_py ''/proj/broken.py''
        (project_name (sample_project [])) default_config = []"
    using local by (rule conjunct1)
  moreover have "extract_from_file sample_env ''/proj/broken.py'' (sample_project [])
        default_config = []"
    using local [THEN conjunct2] by (rule conjunct1)
  moreover have "mset (raw_fragments sample_env
        ([] @ (sample_project []) \<lparr> code_files := pool_files @ ''/proj/broken.py'' # [] \<rparr> # [])
        default_config)
       = mset (raw_fragments sample_env
        ([] @ (sample_project []) \<lparr> code_files := pool_files @ [] \<rparr> # [])
        default_config)"
    using local [THEN conjunct2, THEN conjunct2] by (rule conjunct1)
  moreover have "extract_fragments sample_env
        ([] @ (sample_project []) \<lparr> code_files := [''/proj/area.py''] @ ''/proj/broken.py'' # [] \<rparr> # [])
        default_config
       = extract_fragments sample_env
        ([] @ (sample_project []) \<lparr> code_files := [''/proj/area.py''] @ [] \<rparr> # []) default_config"
    using batch [THEN conjunct2, THEN conjunct2, THEN conjunct2, THEN conjunct2, THEN mp,
        OF seq] .
  ultimately show ?thesis
    using read py bad perm pool loop few by (intro conjI)
qed

section \<open>The line count of a fragment\<close>

text \<open>
  C9 as stated fails: the Python function of the sample has five physical lines, two of
  them blank; its fragment has \<open>lines = 5\<close>, and its code has three non-blank lines.
\<close>

theorem lines_field_counts_blank_lines:
  "extract_python_fragments sample_env area_py ''/proj/area.py'' ''proj'' default_config
     = [area_fragment]
   \<and> lines area_fragment = 5
   \<and> nonblank_count (code area_fragment) = 3"
  by code_simp

text \<open>
  C9, as amended. The \<open>lines\<close> field of every fragment of a result is the count of the
  physical lines of its block, blank lines included. For a fragment of the brace dialect
  that is the number of lines of its code text. For a Python fragment it is the number of
  lines of the file between its start line and its end line, and its code text is these
  lines joined by newlines.
\<close>

theorem lines_field_counts_physical_lines:
  "as_completed_permutes e \<Longrightarrow> extract_fragments e projects cfg = Inr r
   \<Longrightarrow> f \<in> set (fragments r)
   \<Longrightarrow> (take 3 (type f) = ''JS/'' \<and> lines f = int (length (splitlines (code f))))
       \<or> (take 6 (type f) = ''Python''
          \<and> (\<exists>c. safe_read_text e (file f) = Some c
                \<and> code f = join_nl (py_slice (splitlines c) (start_line f - 1) (end_line f))
                \<and> lines f = int (length (py_slice (splitlines c) (start_line f - 1)
                                            (end_line f)))))"
proof -
  assume a: "as_completed_permutes e" "extract_fragments e projects cfg = Inr r"
    "f \<in> set (fragments r)"
  from a show ?thesis
  proof (cases rule: result_fragment_cases)
    case (js fp p c f0 ft m)
    have "take 3 (type f0) = ''JS/''" "lines f0 = int (length (splitlines (code f0)))"
      using js_fragment_SomeD(4,5) [OF js(4)] by simp_all
    then show ?thesis using js(3) by auto
  next
    case (python fp p c f0 node)
    have "take 6 (type f0) = ''Python''"
      using python_fragment_SomeD(6) [OF python(4)] by auto
    moreover have "file f0 = fp"
      "code f0 = join_nl (py_slice (splitlines c) (start_line f0 - 1) (end_line f0))"
      "lines f0 = int (length (py_slice (splitlines c) (start_line f0 - 1) (end_line f0)))"
      using python_fragment_SomeD(2,4,5) [OF python(4)] by simp_all
    ultimately show ?thesis using python(2,3) by auto
  qed
qed

theorem lines_field_counts_physical_lines_witness:
  "as_completed_permutes sample_env
   \<and> extract_fragments sample_env [sample_project [''/proj/area.py'']] default_config
       = Inr \<lparr> fragments = [cache_hash sample_env area_fragment], extraction_time = 1 \<rparr>
   \<and> take 6 (type (cache_hash sample_env area_fragment)) = ''Python''
   \<and> lines (cache_hash sample_env area_fragment) = 5
   \<and> ((take 3 (type (cache_hash sample_env area_fragment)) = ''JS/''
        \<and> lines (cache_hash sample_env area_fragment)
           = int (length (splitlines (code (cache_hash sample_env area_fragment)))))
       \<or> (take 6 (type (cache_hash sample_env area_fragment)) = ''Python''
          \<and> (\<exists>c. safe_read_text sample_env (file (cache_hash sample_env area_fragment)) = Some c
                \<and> code (cache_hash sample_env area_fragment)
                   = join_nl (py_slice (splitlines c)
                       (start_line (cache_hash sample_env area_fragment) - 1)
                       (end_line (cache_hash sample_env area_fragment)))
                \<and> lines (cache_hash sample_env area_fragment)
                   = int (length (py_slice (splitlines c)
                       (start_line (cache_hash sample_env area_fragment) - 1)
                       (end_line (cache_hash sample_env area_fragment)))))))"
proof -
  have perm: "as_completed_permutes sample_env"
    by (simp add: as_completed_permutes_def sample_env_def)
  have run: "extract_fragments sample_env [sample_project [''/proj/area.py'']] default_config
       = Inr \<lparr> fragments = [cache_hash sample_env area_fragment], extraction_time = 1 \<rparr>"
    by code_simp
  have facts: "take 6 (type (cache_hash sample_env area_fragment)) = ''Python''"
      "lines (cache_hash sample_env area_fragment) = 5"
    by (simp_all add: area_fragment_def)
  show ?thesis
    using lines_field_counts_physical_lines [OF perm run] perm run facts
    by (simp del: cache_hash_fields)
qed

end
